theory Spec2Isabelle
  imports Complex_Main "HOL-Library.Sublist"
begin

section \<open>Data model of \<open>app.py\<close>\<close>

text \<open>
  The application keeps one process-wide \<open>SystemState\<close> object and mutates it from the
  monitoring thread, the Flask routes and the Socket.IO handlers. Every function of the
  source becomes a function from the state to the list of externally visible effects it
  performs, in order, together with the new state (and the JSON response, for a route).

  A Python float is carried as the real number the double denotes. The loop and the
  handlers only store and copy such values; the arithmetic of \<open>get_simulated_gps\<close> is
  embedded in \<open>simulated_walk\<close>, with every operation rounded as binary64 rounds it.
\<close>

subsection \<open>Double-precision arithmetic\<close>

text \<open>
  The result of a float operation is the exact result rounded to the nearest number with
  a significand of 53 bits, ties going to the even significand. \<open>fl\<close> is that rounding.
  The exponent range is left unbounded: the simulation works with values near 28 and 77
  and with differences near 0.01, far from overflow and from the subnormal numbers.
\<close>

definition round_half_even :: "real \<Rightarrow> int" where
  "round_half_even x =
     (let n = \<lfloor>x\<rfloor>; f = x - of_int n
      in if f < 1 / 2 then n else if 1 / 2 < f then n + 1 else if even n then n else n + 1)"

definition fl :: "real \<Rightarrow> real" where
  "fl x =
     (if x = 0 then 0
      else (let e = \<lfloor>log 2 \<bar>x\<bar>\<rfloor> - 52
            in of_int (round_half_even (x / 2 powr (of_int e))) * 2 powr (of_int e)))"

text \<open>
  \<open>round(x, 6)\<close>: the exact value of \<open>x\<close> rounded to six decimals, then the double nearest
  to that decimal number.
\<close>

definition py_round6 :: "real \<Rightarrow> real" where
  "py_round6 x = fl (of_int (round_half_even (x * 10 ^ 6)) / 10 ^ 6)"

subsection \<open>Records of the application\<close>

text \<open>The dict returned by \<open>get_simulated_gps\<close>.\<close>

record location =
  latitude :: real
  longitude :: real
  timestamp :: string
  accuracy :: real
  source :: string

text \<open>
  The event dicts built by \<open>monitoring_loop\<close> and \<open>trigger_emergency\<close>. A periodic safe
  event has no \<open>'keyword'\<close> key, hence the option.
\<close>

record event =
  ev_latitude :: real
  ev_longitude :: real
  ev_timestamp :: string
  ev_status :: string
  ev_keyword :: "string option"
  ev_accuracy :: real

text \<open>\<open>class SystemState\<close>, with the fields of its \<open>__init__\<close>.\<close>

record SystemState =
  running :: bool
  current_location :: "location option"
  current_status :: string
  events :: "event list"
  connected_clients :: int
  firebase_connected :: bool
  telegram_enabled :: bool
  sim_lat :: real
  sim_lon :: real
  sim_angle :: real

text \<open>\<open>Config\<close>: the constants the modelled functions read.\<close>

definition DISTRESS_KEYWORDS :: "string list" where
  "DISTRESS_KEYWORDS = [''help'', ''save me'', ''emergency'', ''danger'', ''police'']"

definition GPS_UPDATE_INTERVAL :: nat where
  "GPS_UPDATE_INTERVAL = 2"

text \<open>
  The float literals \<open>28.6139\<close>, \<open>77.2090\<close> and \<open>0.01\<close> denote the doubles nearest to these
  decimal numbers.
\<close>

definition SIMULATION_GPS_CENTER :: "real \<times> real" where
  "SIMULATION_GPS_CENTER = (fl (286139 / 10000), fl (772090 / 10000))"

definition SIMULATION_GPS_RADIUS :: real where
  "SIMULATION_GPS_RADIUS = fl (1 / 100)"

text \<open>
  \<open>state = SystemState()\<close>, followed by the two module-level assignments that copy the
  handlers' flags into it.
\<close>

definition SystemState_init :: "bool \<Rightarrow> bool \<Rightarrow> SystemState" where
  "SystemState_init fb tg =
     \<lparr> running = False, current_location = None, current_status = ''safe'',
       events = [], connected_clients = 0,
       firebase_connected = fb, telegram_enabled = tg,
       sim_lat = fst SIMULATION_GPS_CENTER, sim_lon = snd SIMULATION_GPS_CENTER,
       sim_angle = 0 \<rparr>"

subsection \<open>Effects\<close>

text \<open>
  What leaves the process. \<open>SocketioEmit\<close> is \<open>socketio.emit(name, data)\<close>, a broadcast to
  every connected client; \<open>Emit\<close> is the \<open>emit(name, data)\<close> of a Socket.IO handler, which
  answers the client that raised the event. \<open>StoreEvent\<close> and \<open>SendAlert\<close> are the calls
  made on the Firebase and Telegram handlers.
\<close>

datatype payload =
    Location location
  | Event event
  | Status string string

datatype effect =
    SocketioEmit string payload
  | Emit string payload
  | StoreEvent event
  | SendAlert location "string option"
  | Sleep nat
  | ThreadStart

text \<open>The body of a \<open>jsonify({'success': ..., 'message': ...})\<close> response.\<close>

record response =
  success :: bool
  message :: string

section \<open>Control routes\<close>

text \<open>\<open>start_system\<close>, route \<open>/api/start\<close>.\<close>

definition start_system :: "SystemState \<Rightarrow> effect list \<times> SystemState \<times> response" where
  "start_system s =
     (if \<not> running s
      then ([ThreadStart], s\<lparr>running := True\<rparr>,
            \<lparr>success = True, message = ''System started''\<rparr>)
      else ([], s, \<lparr>success = False, message = ''Already running''\<rparr>))"

text \<open>\<open>stop_system\<close>, route \<open>/api/stop\<close>.\<close>

definition stop_system :: "SystemState \<Rightarrow> effect list \<times> SystemState \<times> response" where
  "stop_system s =
     ([], s\<lparr>running := False\<rparr>, \<lparr>success = True, message = ''System stopped''\<rparr>)"

section \<open>Sampling\<close>

text \<open>
  \<open>get_simulated_gps\<close> advances the simulated walk stored in the state and returns a
  location dict. It is modelled in two parts. A \<open>gps_result\<close> is what one call computes,
  namely the three simulation fields it assigns and the dict it returns;
  \<open>get_simulated_gps\<close> below assigns and returns them, and \<open>simulated_walk\<close> computes
  them from the state and the random draws of the call. The loop is modelled over any
  result, so what is proved of it holds for the results \<open>simulated_walk\<close> computes.
\<close>

record gps_result =
  next_angle :: real
  next_lat :: real
  next_lon :: real
  reading :: location

definition get_simulated_gps :: "gps_result \<Rightarrow> SystemState \<Rightarrow> location \<times> SystemState" where
  "get_simulated_gps r s =
     (reading r,
      s\<lparr>sim_angle := next_angle r, sim_lat := next_lat r, sim_lon := next_lon r\<rparr>)"

text \<open>
  The outcomes of the calls a pass through \<open>get_simulated_gps\<close> makes on the \<open>random\<close>
  module and on the clock: \<open>random.uniform(-30, 30)\<close>, \<open>random.uniform(0, radius * 0.1)\<close>,
  \<open>random.uniform(5, 15)\<close> and the formatted \<open>datetime.utcnow()\<close>.
\<close>

record gps_draw =
  d_angle :: real
  d_distance :: real
  d_accuracy :: real
  d_now :: string

text \<open>
  \<open>math.radians\<close>, \<open>math.cos\<close> and \<open>math.sin\<close> as the platform computes them on doubles.
  Their results are not correctly rounded in general, so they are parameters.
\<close>

record libm =
  m_radians :: "real \<Rightarrow> real"
  m_cos :: "real \<Rightarrow> real"
  m_sin :: "real \<Rightarrow> real"

text \<open>
  The two \<open>if abs(... - center) > max_dist\<close> statements, one per coordinate: a coordinate
  whose rounded distance from the center exceeds the radius is set to the center plus or
  minus the radius.
\<close>

definition keep_within :: "real \<Rightarrow> real \<Rightarrow> real \<Rightarrow> real" where
  "keep_within center max_dist x =
     (if \<bar>fl (x - center)\<bar> > max_dist
      then fl (center + (if x > center then max_dist else - max_dist))
      else x)"

text \<open>The computation of \<open>get_simulated_gps\<close>, statement by statement.\<close>

definition simulated_walk :: "libm \<Rightarrow> gps_draw \<Rightarrow> SystemState \<Rightarrow> gps_result" where
  "simulated_walk lm d s =
     (let angle = fl (sim_angle s + d_angle d);
          lat = fl (sim_lat s + fl (d_distance d * m_cos lm (m_radians lm angle)));
          lon = fl (sim_lon s + fl (d_distance d * m_sin lm (m_radians lm angle)));
          (center_lat, center_lon) = SIMULATION_GPS_CENTER;
          max_dist = SIMULATION_GPS_RADIUS;
          lat = keep_within center_lat max_dist lat;
          lon = keep_within center_lon max_dist lon
      in \<lparr> next_angle = angle, next_lat = lat, next_lon = lon,
           reading = \<lparr> latitude = py_round6 lat, longitude = py_round6 lon,
                       timestamp = d_now d, accuracy = d_accuracy d,
                       source = ''simulated'' \<rparr> \<rparr>)"

text \<open>
  \<open>simulate_voice_detection\<close>: \<open>below_prob\<close> is the outcome of
  \<open>random.random() < SIMULATION_VOICE_TRIGGER_PROB\<close>, \<open>choice\<close> the index picked by
  \<open>random.choice\<close>. The third component of the returned tuple, a confidence that no
  caller reads, is left out.
\<close>

record voice_draw =
  below_prob :: bool
  choice :: nat

definition simulate_voice_detection :: "voice_draw \<Rightarrow> bool \<times> string option" where
  "simulate_voice_detection d =
     (if below_prob d
      then (True, Some (DISTRESS_KEYWORDS ! (choice d mod length DISTRESS_KEYWORDS)))
      else (False, None))"

section \<open>Telegram handler\<close>

record TelegramHandler =
  enabled :: bool

text \<open>
  \<open>TelegramHandler.__init__\<close>: the handler is enabled when the library imported, the
  token is a non-empty string and the \<open>Bot\<close> constructor did not raise.
\<close>

definition TelegramHandler_init :: "bool \<Rightarrow> string \<Rightarrow> bool \<Rightarrow> TelegramHandler" where
  "TelegramHandler_init telegram_available token bot_ok =
     \<lparr> enabled = (telegram_available \<and> token \<noteq> [] \<and> bot_ok) \<rparr>"

text \<open>\<open>str.split(",")\<close>, which turns the environment variable into \<open>TELEGRAM_CHAT_IDS\<close>.\<close>

fun split_commas :: "string \<Rightarrow> string list" where
  "split_commas [] = [[]]"
| "split_commas (c # cs) =
     (if c = CHR '','' then [] # split_commas cs
      else (case split_commas cs of
              w # ws \<Rightarrow> (c # w) # ws
            | [] \<Rightarrow> [[c]]))"

text \<open>
  The loop of \<open>send_alert\<close> over the chat ids. \<open>send_message c\<close> tells whether
  \<open>bot.send_message(chat_id=c, ...)\<close> returns (\<open>True\<close>) or raises (\<open>False\<close>); the
  \<open>except: pass\<close> swallows the exception. The first component of the result lists the
  chat ids a delivery was attempted to, in order; the second is the local variable
  \<open>success\<close> (here \<open>succ\<close>).
\<close>

fun send_to_chats :: "(string \<Rightarrow> bool) \<Rightarrow> string list \<Rightarrow> bool \<Rightarrow> string list \<times> bool" where
  "send_to_chats send_message [] succ = ([], succ)"
| "send_to_chats send_message (chat_id # rest) succ =
     (if chat_id \<noteq> []
      then (let (attempts, result) =
                  send_to_chats send_message rest
                    (if send_message chat_id then True else succ)
            in (chat_id # attempts, result))
      else send_to_chats send_message rest succ)"

text \<open>
  \<open>TelegramHandler.send_alert\<close>. The message text is the same for every chat id and
  does not influence the control flow, so it is not built here.
\<close>

definition send_alert ::
  "TelegramHandler \<Rightarrow> (string \<Rightarrow> bool) \<Rightarrow> string list \<Rightarrow> location \<Rightarrow> string option
     \<Rightarrow> string list \<times> bool" where
  "send_alert self send_message TELEGRAM_CHAT_IDS loc keyword =
     (if \<not> enabled self then ([], False)
      else send_to_chats send_message TELEGRAM_CHAT_IDS False)"

section \<open>Monitoring loop\<close>

text \<open>
  What one iteration of the \<open>while state.running\<close> loop draws from its environment:
  the first GPS sample, the voice detection, the fifteen samples of the enhanced
  monitoring (by loop index) and the clock reading of the status update.
\<close>

record tick_inputs =
  gps_first :: gps_result
  voice :: voice_draw
  gps_enhanced :: "nat \<Rightarrow> gps_result"
  status_time :: string

definition distress_event :: "location \<Rightarrow> string option \<Rightarrow> event" where
  "distress_event loc keyword =
     \<lparr> ev_latitude = latitude loc, ev_longitude = longitude loc,
       ev_timestamp = timestamp loc, ev_status = ''distress'',
       ev_keyword = keyword, ev_accuracy = accuracy loc \<rparr>"

definition safe_event :: "location \<Rightarrow> event" where
  "safe_event loc =
     \<lparr> ev_latitude = latitude loc, ev_longitude = longitude loc,
       ev_timestamp = timestamp loc, ev_status = ''safe'',
       ev_keyword = None, ev_accuracy = accuracy loc \<rparr>"

text \<open>
  \<open>state.events.insert(0, event)\<close> followed by
  \<open>if len(state.events) > 50: state.events.pop()\<close>.
\<close>

definition store_capped :: "event \<Rightarrow> event list \<Rightarrow> event list" where
  "store_capped e evs =
     (let evs1 = e # evs in if length evs1 > 50 then butlast evs1 else evs1)"

text \<open>\<open>for i in range(15)\<close>: sample, broadcast, sleep two seconds.\<close>

fun enhanced_monitoring ::
  "nat list \<Rightarrow> (nat \<Rightarrow> gps_result) \<Rightarrow> SystemState \<Rightarrow> effect list \<times> SystemState" where
  "enhanced_monitoring [] g s = ([], s)"
| "enhanced_monitoring (i # rest) g s =
     (let (loc, s1) = get_simulated_gps (g i) s;
          (fx, s2) = enhanced_monitoring rest g s1
      in (SocketioEmit ''location_update'' (Location loc) # Sleep 2 # fx, s2))"

definition status_update :: "SystemState \<Rightarrow> string \<Rightarrow> effect list" where
  "status_update s now =
     [SocketioEmit ''status_update'' (Status (current_status s) now),
      Sleep GPS_UPDATE_INTERVAL]"

text \<open>The \<open>if detected:\<close> branch.\<close>

definition distress_branch ::
  "TelegramHandler \<Rightarrow> tick_inputs \<Rightarrow> location \<Rightarrow> string option \<Rightarrow> SystemState
     \<Rightarrow> effect list \<times> SystemState" where
  "distress_branch telegram_handler inp loc keyword s =
     (let s1 = s\<lparr>current_status := ''distress''\<rparr>;
          ev = distress_event loc keyword;
          s2 = s1\<lparr>events := store_capped ev (events s1)\<rparr>;
          alert = (if enabled telegram_handler then [SendAlert loc keyword] else []);
          (fx, s3) = enhanced_monitoring [0..<15] (gps_enhanced inp) s2;
          s4 = s3\<lparr>current_status := ''safe''\<rparr>
      in ([StoreEvent ev] @ alert @ [SocketioEmit ''emergency_alert'' (Event ev)] @ fx, s4))"

text \<open>The \<open>else:\<close> branch: a safe event whenever the log length is a multiple of ten.\<close>

definition safe_branch :: "location \<Rightarrow> SystemState \<Rightarrow> effect list \<times> SystemState" where
  "safe_branch loc s =
     (if length (events s) mod 10 = 0
      then (let ev = safe_event loc
            in ([StoreEvent ev], s\<lparr>events := ev # events s\<rparr>))
      else ([], s))"

text \<open>
  One iteration of the body of \<open>monitoring_loop\<close>. No call of the body raises in this
  model (\<open>store_event\<close> and the alert catch their own exceptions), so the \<open>except\<close>
  clause of the loop is not reached.
\<close>

definition monitoring_iteration ::
  "TelegramHandler \<Rightarrow> tick_inputs \<Rightarrow> SystemState \<Rightarrow> effect list \<times> SystemState" where
  "monitoring_iteration telegram_handler inp s =
     (let (loc, s1) = get_simulated_gps (gps_first inp) s;
          s2 = s1\<lparr>current_location := Some loc\<rparr>;
          (detected, keyword) = simulate_voice_detection (voice inp);
          (fx, s3) = (if detected then distress_branch telegram_handler inp loc keyword s2
                      else safe_branch loc s2)
      in (SocketioEmit ''location_update'' (Location loc) # fx
            @ status_update s3 (status_time inp), s3))"


section \<open>Query and manual-trigger routes\<close>

text \<open>
  The Python slice \<open>xs[:k]\<close>: a non-negative \<open>k\<close> keeps the first \<open>k\<close> elements, a
  negative \<open>k\<close> counts the stop position from the end of the list.
\<close>

definition slice_to :: "'a list \<Rightarrow> int \<Rightarrow> 'a list" where
  "slice_to xs k =
     (if 0 \<le> k then take (nat k) xs else take (nat (int (length xs) + k)) xs)"

text \<open>
  \<open>get_events\<close>, route \<open>/api/events\<close>. The argument is the query parameter \<open>limit\<close>
  after \<open>request.args.get('limit', 20, type=int)\<close>: \<open>None\<close> when the parameter is
  absent or does not parse as an integer, in which case the default 20 is used.
\<close>

definition get_events :: "int option \<Rightarrow> SystemState \<Rightarrow> event list" where
  "get_events limit_arg s =
     (let limit = (case limit_arg of None \<Rightarrow> 20 | Some l \<Rightarrow> l)
      in slice_to (events s) limit)"

text \<open>
  \<open>trigger_emergency\<close>, route \<open>/api/trigger-emergency\<close>; \<open>now\<close> is
  \<open>datetime.utcnow().isoformat() + 'Z'\<close>.
\<close>

definition manual_event :: "location \<Rightarrow> string \<Rightarrow> event" where
  "manual_event loc now =
     \<lparr> ev_latitude = latitude loc, ev_longitude = longitude loc,
       ev_timestamp = now, ev_status = ''distress'',
       ev_keyword = Some ''MANUAL_TRIGGER'', ev_accuracy = 10 \<rparr>"

definition trigger_emergency ::
  "string \<Rightarrow> SystemState \<Rightarrow> effect list \<times> SystemState \<times> response" where
  "trigger_emergency now s =
     (case current_location s of
        Some loc \<Rightarrow>
          (let ev = manual_event loc now
           in ([StoreEvent ev, SocketioEmit ''emergency_alert'' (Event ev)],
               s\<lparr>events := ev # events s\<rparr>,
               \<lparr>success = True, message = ''Emergency triggered''\<rparr>))
      | None \<Rightarrow> ([], s, \<lparr>success = False, message = ''No location available''\<rparr>))"

section \<open>Socket.IO handlers\<close>

text \<open>\<open>handle_connect\<close>; \<open>now\<close> is the formatted clock reading of the status message.\<close>

definition handle_connect :: "string \<Rightarrow> SystemState \<Rightarrow> effect list \<times> SystemState" where
  "handle_connect now s =
     (let s1 = s\<lparr>connected_clients := connected_clients s + 1\<rparr>
      in ((case current_location s1 of
             Some loc \<Rightarrow> [Emit ''location_update'' (Location loc)]
           | None \<Rightarrow> [])
          @ [Emit ''status_update'' (Status (current_status s1) now)], s1))"

text \<open>\<open>handle_disconnect\<close>.\<close>

definition handle_disconnect :: "SystemState \<Rightarrow> effect list \<times> SystemState" where
  "handle_disconnect s = ([], s\<lparr>connected_clients := connected_clients s - 1\<rparr>)"

text \<open>\<open>handle_location_request\<close>.\<close>

definition handle_location_request :: "SystemState \<Rightarrow> effect list \<times> SystemState" where
  "handle_location_request s =
     ((case current_location s of
         Some loc \<Rightarrow> [Emit ''location_update'' (Location loc)]
       | None \<Rightarrow> []), s)"

section \<open>Runs of the system\<close>

text \<open>
  The stimuli the process reacts to. \<open>Tick\<close> is one pass of a monitoring thread through
  the loop; its body runs only when the \<open>while state.running\<close> test succeeds. Each
  stimulus is handled to completion before the next one. In particular a pass with a
  detection runs its whole escalation window as one step, so no state that \<open>run\<close> reaches
  has the status distress, although the program serves requests and joins during the
  window. What is proved of a route or a handler is therefore stated for every state,
  and \<open>run\<close> is used only for the facts that depend on the history: the size of the log,
  the count of clients, whether a sample was ever taken, and the existence of runs.
\<close>

datatype action =
    Tick tick_inputs
  | Start
  | Stop
  | TriggerEmergency string
  | Connect string
  | Disconnect
  | RequestLocation

fun step :: "TelegramHandler \<Rightarrow> action \<Rightarrow> SystemState \<Rightarrow> effect list \<times> SystemState" where
  "step th (Tick inp) s = (if running s then monitoring_iteration th inp s else ([], s))"
| "step th Start s = (let (fx, s1, r) = start_system s in (fx, s1))"
| "step th Stop s = (let (fx, s1, r) = stop_system s in (fx, s1))"
| "step th (TriggerEmergency now) s = (let (fx, s1, r) = trigger_emergency now s in (fx, s1))"
| "step th (Connect now) s = handle_connect now s"
| "step th Disconnect s = handle_disconnect s"
| "step th RequestLocation s = handle_location_request s"

fun run :: "TelegramHandler \<Rightarrow> action list \<Rightarrow> SystemState \<Rightarrow> effect list \<times> SystemState" where
  "run th [] s = ([], s)"
| "run th (a # acts) s =
     (let (fx, s1) = step th a s;
          (fx1, s2) = run th acts s1
      in (fx @ fx1, s2))"

text \<open>A broadcast of a location, which the loop sends right after every GPS sample.\<close>

fun is_location_broadcast :: "effect \<Rightarrow> bool" where
  "is_location_broadcast (SocketioEmit name (Location loc)) = (name = ''location_update'')"
| "is_location_broadcast e = False"

fun is_send_alert :: "effect \<Rightarrow> bool" where
  "is_send_alert (SendAlert loc keyword) = True"
| "is_send_alert e = False"


fun is_location_reply :: "effect \<Rightarrow> bool" where
  "is_location_reply (Emit name (Location loc)) = (name = ''location_update'')"
| "is_location_reply e = False"

fun is_status_reply :: "effect \<Rightarrow> bool" where
  "is_status_reply (Emit name (Status st now)) = (name = ''status_update'')"
| "is_status_reply e = False"

text \<open>
  Socket.IO raises \<open>disconnect\<close> only for a client whose \<open>connect\<close> it raised before.
  \<open>leaves_matched n acts\<close> says that \<open>acts\<close> respects this when \<open>n\<close> clients are
  connected at its start.
\<close>

fun leaves_matched :: "nat \<Rightarrow> action list \<Rightarrow> bool" where
  "leaves_matched n [] = True"
| "leaves_matched n (Connect now # acts) = leaves_matched (Suc n) acts"
| "leaves_matched n (Disconnect # acts) = (0 < n \<and> leaves_matched (n - 1) acts)"
| "leaves_matched n (a # acts) = leaves_matched n acts"

fun is_connect :: "action \<Rightarrow> bool" where
  "is_connect (Connect now) = True"
| "is_connect a = False"

fun is_disconnect :: "action \<Rightarrow> bool" where
  "is_disconnect Disconnect = True"
| "is_disconnect a = False"

subsection \<open>Concrete inputs\<close>

definition sample_location :: location where
  "sample_location =
     \<lparr> latitude = fst SIMULATION_GPS_CENTER, longitude = snd SIMULATION_GPS_CENTER,
       timestamp = ''2024-01-01T00:00:00Z'', accuracy = 10, source = ''simulated'' \<rparr>"

definition sample_gps :: gps_result where
  "sample_gps =
     \<lparr> next_angle = 0, next_lat = fst SIMULATION_GPS_CENTER,
       next_lon = snd SIMULATION_GPS_CENTER, reading = sample_location \<rparr>"

text \<open>A pass of the loop in which no keyword is detected, and one in which \<open>help\<close> is.\<close>

definition quiet_tick :: tick_inputs where
  "quiet_tick =
     \<lparr> gps_first = sample_gps, voice = \<lparr>below_prob = False, choice = 0\<rparr>,
       gps_enhanced = (\<lambda>i. sample_gps), status_time = ''2024-01-01T00:00:01Z'' \<rparr>"

definition alarm_tick :: tick_inputs where
  "alarm_tick =
     \<lparr> gps_first = sample_gps, voice = \<lparr>below_prob = True, choice = 0\<rparr>,
       gps_enhanced = (\<lambda>i. sample_gps), status_time = ''2024-01-01T00:00:31Z'' \<rparr>"

text \<open>
  A detecting pass whose fifteen escalation samples have moved away from its first
  sample, and the last location a trace has broadcast to the clients.
\<close>

fun last_location_broadcast :: "effect list \<Rightarrow> location option" where
  "last_location_broadcast [] = None"
| "last_location_broadcast (e # es) =
     (case last_location_broadcast es of
        Some loc \<Rightarrow> Some loc
      | None \<Rightarrow>
          (case e of
             SocketioEmit name (Location loc) \<Rightarrow>
               if name = ''location_update'' then Some loc else None
           | _ \<Rightarrow> None))"

definition moved_location :: location where
  "moved_location =
     \<lparr> latitude = fl (28614 / 1000), longitude = snd SIMULATION_GPS_CENTER,
       timestamp = ''2024-01-01T00:00:30Z'', accuracy = 10, source = ''simulated'' \<rparr>"

definition moved_gps :: gps_result where
  "moved_gps =
     \<lparr> next_angle = 0, next_lat = fl (28614 / 1000), next_lon = snd SIMULATION_GPS_CENTER,
       reading = moved_location \<rparr>"

definition alarm_walk :: tick_inputs where
  "alarm_walk =
     \<lparr> gps_first = sample_gps, voice = \<lparr>below_prob = True, choice = 0\<rparr>,
       gps_enhanced = (\<lambda>i. moved_gps), status_time = ''2024-01-01T00:00:31Z'' \<rparr>"

text \<open>The state of a fresh process in which neither Firebase nor Telegram is set up.\<close>

definition fresh :: SystemState where
  "fresh = SystemState_init False False"


text \<open>
  A walk heading south close to the southern edge of the box: the angle is 180 degrees,
  the latitude is the double 28.604 and the step is the double 0.0005, half of the
  largest step. The cosine and sine here are the exact ones; at 180 degrees the
  platform's cosine is \<open>-1\<close> as well.
\<close>

definition libm_exact :: libm where
  "libm_exact = \<lparr> m_radians = (\<lambda>a. a * pi / 180), m_cos = cos, m_sin = sin \<rparr>"

definition south_state :: SystemState where
  "south_state = fresh\<lparr>sim_angle := 180, sim_lat := fl (28604 / 1000)\<rparr>"

definition south_draw :: gps_draw where
  "south_draw =
     \<lparr> d_angle = 0, d_distance = fl (5 / 10000), d_accuracy = 10,
       d_now = ''2024-01-01T00:00:02Z'' \<rparr>"

subsection \<open>The delivery report of the specification\<close>

text \<open>
  Written from the words of the specification, not from the source, to compare the two:
  \<open>notify\<close> is to report how many sinks it attempted and how many deliveries succeeded.
  The source has no such value; \<open>send_alert\<close> returns a boolean.
\<close>

record DeliveryReport =
  attempted :: int
  succeeded :: int

definition spec_notify :: "(string \<Rightarrow> bool) \<Rightarrow> string list \<Rightarrow> DeliveryReport" where
  "spec_notify deliver sinks =
     \<lparr> attempted = int (length sinks), succeeded = int (length (filter deliver sinks)) \<rparr>"

text \<open>The state after a fresh process was started and made one quiet pass of the loop.\<close>

definition sampled :: SystemState where
  "sampled = snd (run \<lparr>enabled = True\<rparr> [Start, Tick quiet_tick] fresh)"

text \<open>The same state in the middle of an escalation window, where the status is distress.\<close>

definition escalating :: SystemState where
  "escalating = sampled\<lparr>current_status := ''distress''\<rparr>"

section \<open>Auxiliary facts\<close>

lemma run_append:
  "run th (xs @ ys) s =
     (fst (run th xs s) @ fst (run th ys (snd (run th xs s))),
      snd (run th ys (snd (run th xs s))))"
  by (induction xs arbitrary: s) (auto simp: split_beta Let_def)

lemma enhanced_monitoring_frame:
  "snd (enhanced_monitoring is g s) =
     (if is = [] then s
      else s\<lparr>sim_angle := next_angle (g (last is)), sim_lat := next_lat (g (last is)),
             sim_lon := next_lon (g (last is))\<rparr>)"
  by (induction "is" arbitrary: s) (auto simp: split_beta Let_def get_simulated_gps_def)

lemma enhanced_monitoring_trace:
  "fst (enhanced_monitoring is g s) =
     concat (map (\<lambda>i. [SocketioEmit ''location_update'' (Location (reading (g i))), Sleep 2]) is)"
  by (induction "is" arbitrary: s) (auto simp: split_beta Let_def get_simulated_gps_def)

lemma length_store_capped:
  "length (store_capped e evs) = (if 50 \<le> length evs then length evs else Suc (length evs))"
  by (simp add: store_capped_def Let_def)

lemma monitoring_iteration_events:
  "events (snd (monitoring_iteration th inp s)) =
     (if below_prob (voice inp)
      then store_capped (distress_event (reading (gps_first inp))
             (Some (DISTRESS_KEYWORDS ! (choice (voice inp) mod length DISTRESS_KEYWORDS))))
             (events s)
      else if length (events s) mod 10 = 0 then safe_event (reading (gps_first inp)) # events s
      else events s)"
  by (simp add: monitoring_iteration_def distress_branch_def safe_branch_def
      simulate_voice_detection_def get_simulated_gps_def split_beta Let_def
      enhanced_monitoring_frame)

lemma monitoring_iteration_fields:
  "running (snd (monitoring_iteration th inp s)) = running s"
  "current_location (snd (monitoring_iteration th inp s)) = Some (reading (gps_first inp))"
  "connected_clients (snd (monitoring_iteration th inp s)) = connected_clients s"
  "current_status (snd (monitoring_iteration th inp s)) =
     (if below_prob (voice inp) then ''safe'' else current_status s)"
  by (simp_all add: monitoring_iteration_def distress_branch_def safe_branch_def
      simulate_voice_detection_def get_simulated_gps_def split_beta Let_def
      enhanced_monitoring_frame)

lemma store_capped_take:
  "length evs \<le> 50 \<Longrightarrow> store_capped e evs = take 50 (e # evs)"
  by (cases "length evs = 50") (simp_all add: store_capped_def Let_def butlast_conv_take)

lemma monitoring_iteration_trace:
  "below_prob (voice inp) \<Longrightarrow>
   fst (monitoring_iteration th inp s) =
     SocketioEmit ''location_update'' (Location (reading (gps_first inp)))
     # StoreEvent (distress_event (reading (gps_first inp)) (snd (simulate_voice_detection (voice inp))))
     # (if enabled th
        then [SendAlert (reading (gps_first inp)) (snd (simulate_voice_detection (voice inp)))]
        else [])
     @ SocketioEmit ''emergency_alert''
         (Event (distress_event (reading (gps_first inp)) (snd (simulate_voice_detection (voice inp)))))
     # concat (map (\<lambda>i. [SocketioEmit ''location_update'' (Location (reading (gps_enhanced inp i))),
                          Sleep 2]) [0..<15])
     @ [SocketioEmit ''status_update'' (Status ''safe'' (status_time inp)), Sleep 2]"
  by (simp add: monitoring_iteration_def distress_branch_def status_update_def
      simulate_voice_detection_def get_simulated_gps_def split_beta Let_def
      enhanced_monitoring_frame enhanced_monitoring_trace GPS_UPDATE_INTERVAL_def
      del: upt.simps)

lemma no_alert_in_window:
  "filter is_send_alert
     (concat (map (\<lambda>i. [SocketioEmit ''location_update'' (Location (f i)), Sleep 2]) is)) = []"
  by (induction "is") simp_all

lemma send_to_chats_eq:
  "send_to_chats sm ids succ =
     (filter (\<lambda>c. c \<noteq> []) ids, succ \<or> (\<exists>c \<in> set ids. c \<noteq> [] \<and> sm c))"
  by (induction ids arbitrary: succ) (auto simp: split_beta Let_def)

lemma alarm_ticks_length:
  "running s \<Longrightarrow> length (events s) \<le> 50 \<Longrightarrow>
   running (snd (run th (replicate n (Tick alarm_tick)) s))
   \<and> length (events (snd (run th (replicate n (Tick alarm_tick)) s)))
       = min 50 (length (events s) + n)"
proof (induction n arbitrary: s)
  case 0
  then show ?case by simp
next
  case (Suc n)
  let ?s1 = "snd (monitoring_iteration th alarm_tick s)"
  have r: "running ?s1" using Suc.prems by (simp add: monitoring_iteration_fields)
  have l: "length (events ?s1) = min 50 (Suc (length (events s)))"
    using Suc.prems by (simp add: monitoring_iteration_events alarm_tick_def length_store_capped)
  from Suc.IH [OF r] l Suc.prems show ?case
    by (simp add: split_beta Let_def)
qed

lemma manual_triggers_length:
  "current_location s \<noteq> None \<Longrightarrow>
   length (events (snd (run th (replicate n (TriggerEmergency now)) s))) = length (events s) + n"
proof (induction n arbitrary: s)
  case 0
  then show ?case by simp
next
  case (Suc n)
  then obtain loc where loc: "current_location s = Some loc" by auto
  let ?s1 = "s\<lparr>events := manual_event loc now # events s\<rparr>"
  have "current_location ?s1 \<noteq> None" using loc by simp
  from Suc.IH [OF this] loc show ?case
    by (simp add: split_beta Let_def trigger_emergency_def)
qed

lemma monitoring_iteration_broadcasts:
  "filter is_location_broadcast (fst (monitoring_iteration th inp s)) \<noteq> []"
  by (simp add: monitoring_iteration_def split_beta Let_def get_simulated_gps_def)

lemma step_location_sampled:
  "(current_location (snd (step th a s)) = None) \<longleftrightarrow>
     (current_location s = None \<and> filter is_location_broadcast (fst (step th a s)) = [])"
proof (cases a)
  case (Tick inp)
  then show ?thesis
    by (simp add: monitoring_iteration_fields monitoring_iteration_broadcasts)
next
  case Start
  then show ?thesis by (simp add: start_system_def)
next
  case Stop
  then show ?thesis by (simp add: stop_system_def)
next
  case (TriggerEmergency now)
  then show ?thesis by (simp add: trigger_emergency_def Let_def split: option.splits)
next
  case (Connect now)
  then show ?thesis by (simp add: handle_connect_def Let_def split: option.splits)
next
  case Disconnect
  then show ?thesis by (simp add: handle_disconnect_def)
next
  case RequestLocation
  then show ?thesis by (simp add: handle_location_request_def split: option.splits)
qed

lemma run_location_sampled:
  "(current_location (snd (run th acts s)) = None) \<longleftrightarrow>
     (current_location s = None \<and> filter is_location_broadcast (fst (run th acts s)) = [])"
proof (induction acts arbitrary: s)
  case Nil
  then show ?case by simp
next
  case (Cons a acts)
  show ?case
    using Cons.IH [of "snd (step th a s)"] step_location_sampled [of th a s]
    by (auto simp: split_beta Let_def simp del: step.simps)
qed

lemma init_no_location: "current_location (SystemState_init fb tg) = None"
  by (simp add: SystemState_init_def)

lemma sampled_fields:
  "current_location sampled = Some sample_location"
  "events sampled = [safe_event sample_location]"
  "running sampled"
  "current_status sampled = ''safe''"
  by (simp_all add: sampled_def fresh_def SystemState_init_def start_system_def split_beta
      Let_def monitoring_iteration_fields monitoring_iteration_events quiet_tick_def
      sample_gps_def)

lemma step_connected_clients:
  "connected_clients (snd (step th a s)) =
     connected_clients s + (if is_connect a then 1 else 0) - (if is_disconnect a then 1 else 0)"
  by (cases a)
     (simp_all add: monitoring_iteration_fields start_system_def stop_system_def
       trigger_emergency_def handle_connect_def handle_disconnect_def
       handle_location_request_def Let_def split: option.splits)

lemma run_connected_clients:
  "connected_clients (snd (run th acts s)) =
     connected_clients s + int (length (filter is_connect acts))
       - int (length (filter is_disconnect acts))"
proof (induction acts arbitrary: s)
  case Nil
  then show ?case by simp
next
  case (Cons a acts)
  show ?case
    using Cons.IH [of "snd (step th a s)"] step_connected_clients [of th a s]
    by (simp add: split_beta Let_def del: step.simps)
qed

lemma leaves_matched_count:
  "leaves_matched n acts \<Longrightarrow>
     length (filter is_disconnect acts) \<le> n + length (filter is_connect acts)"
  by (induction n acts rule: leaves_matched.induct) auto

lemma leaves_matched_prefix:
  "leaves_matched n (xs @ ys) \<Longrightarrow> leaves_matched n xs"
  by (induction n xs rule: leaves_matched.induct) auto

subsection \<open>Facts about rounding\<close>

lemma round_half_even_error: "\<bar>of_int (round_half_even y) - y\<bar> \<le> 1 / 2"
  unfolding round_half_even_def Let_def by (auto simp: abs_le_iff)

lemma round_half_even_unique:
  "\<bar>y - of_int n\<bar> < 1 / 2 \<Longrightarrow> round_half_even y = n"
proof -
  assume a: "\<bar>y - of_int n\<bar> < 1 / 2"
  have e: "\<bar>of_int (round_half_even y) - y\<bar> \<le> 1 / 2" by (rule round_half_even_error)
  have "\<bar>real_of_int (round_half_even y) - real_of_int n\<bar> < 1" using a e by linarith
  then have "\<bar>round_half_even y - n\<bar> < 1"
    by (metis of_int_1 of_int_abs of_int_diff of_int_less_iff)
  then show ?thesis by linarith
qed

lemma round_half_even_of_int: "round_half_even (of_int n) = n"
  by (rule round_half_even_unique) simp

lemma round_half_even_mono: "a \<le> b \<Longrightarrow> round_half_even a \<le> round_half_even b"
proof -
  assume ab: "a \<le> b"
  have fa: "\<lfloor>a\<rfloor> \<le> \<lfloor>b\<rfloor>" using ab by (rule floor_mono)
  have la: "round_half_even a \<le> \<lfloor>a\<rfloor> + 1" and lb: "\<lfloor>b\<rfloor> \<le> round_half_even b"
    unfolding round_half_even_def Let_def by auto
  show ?thesis
  proof (cases "\<lfloor>a\<rfloor> < \<lfloor>b\<rfloor>")
    case True
    then show ?thesis using la lb by linarith
  next
    case False
    then have eq: "\<lfloor>a\<rfloor> = \<lfloor>b\<rfloor>" using fa by linarith
    then show ?thesis using ab
      unfolding round_half_even_def Let_def by auto
  qed
qed


lemma fl_error: "\<bar>fl x - x\<bar> \<le> \<bar>x\<bar> / 2 ^ 53"
proof (cases "x = 0")
  case True
  then show ?thesis by (simp add: fl_def)
next
  case False
  define e where "e = \<lfloor>log 2 \<bar>x\<bar>\<rfloor>"
  define u :: real where "u = 2 powr (of_int (e - 52))"
  have upos: "0 < u" by (simp add: u_def)
  have flx: "fl x = of_int (round_half_even (x / u)) * u"
    using False by (simp add: fl_def Let_def e_def u_def)
  have "\<bar>of_int (round_half_even (x / u)) - x / u\<bar> \<le> 1 / 2"
    by (rule round_half_even_error)
  then have "\<bar>of_int (round_half_even (x / u)) - x / u\<bar> * u \<le> 1 / 2 * u"
    using upos by (simp add: mult_right_mono)
  moreover have "\<bar>of_int (round_half_even (x / u)) - x / u\<bar> * u = \<bar>fl x - x\<bar>"
  proof -
    have "(of_int (round_half_even (x / u)) - x / u) * u = fl x - x"
      using upos flx by (simp add: field_simps)
    then have "\<bar>fl x - x\<bar> = \<bar>of_int (round_half_even (x / u)) - x / u\<bar> * \<bar>u\<bar>"
      by (simp only: abs_mult [symmetric])
    then show ?thesis using upos by simp
  qed
  ultimately have err: "\<bar>fl x - x\<bar> \<le> u / 2" by simp
  have "(2::real) powr (of_int e) \<le> \<bar>x\<bar>"
  proof -
    have "of_int e \<le> log 2 \<bar>x\<bar>" by (simp add: e_def)
    then show ?thesis using False le_log_iff [of 2 "\<bar>x\<bar>" "of_int e"] by simp
  qed
  moreover have "u = 2 powr (of_int e) / 2 ^ 52"
    by (simp add: u_def powr_diff powr_numeral [symmetric] del: powr_numeral)
  ultimately have "u / 2 \<le> \<bar>x\<bar> / 2 ^ 53"
    by (simp add: field_simps)
  with err show ?thesis by linarith
qed


lemma two_powr_neg: "(2::real) powr (- real n) = 1 / 2 ^ n"
proof -
  have "(2::real) powr (- real n) = inverse (2 powr (real n))" by (rule powr_minus)
  also have "(2::real) powr (real n) = 2 ^ n" by (rule powr_realpow) simp
  finally show ?thesis by (simp only: inverse_eq_divide)
qed

lemma fl_scaled:
  assumes nz: "x \<noteq> 0" and e: "\<lfloor>log 2 \<bar>x\<bar>\<rfloor> = e" and u: "(2::real) powr (of_int (e - 52)) = 1 / p"
    and p: "0 < p"
  shows "fl x = of_int (round_half_even (x * p)) / p"
proof -
  have "fl x = of_int (round_half_even (x / 2 powr (of_int (e - 52)))) * 2 powr (of_int (e - 52))"
    unfolding fl_def Let_def e using nz by (simp only: if_False)
  then show ?thesis unfolding u using p by simp
qed

lemma fl_binade_up:
  assumes lo: "2 ^ k \<le> \<bar>x\<bar>" and hi: "\<bar>x\<bar> < 2 * 2 ^ k" and k: "k \<le> 52"
  shows "fl x = of_int (round_half_even (x * 2 ^ (52 - k))) / 2 ^ (52 - k)"
proof -
  have pos: "0 < \<bar>x\<bar>" using lo by (rule less_le_trans [rotated]) simp
  then have nz: "x \<noteq> 0" by auto
  have a: "(2::real) powr (of_int (int k)) = 2 ^ k" by (simp add: powr_realpow)
  have "real_of_int (int k + 1) = real (Suc k)" by simp
  then have b: "(2::real) powr (of_int (int k + 1)) = 2 * 2 ^ k"
    by (simp only: powr_realpow [OF zero_less_numeral] power_Suc)
  have e: "\<lfloor>log 2 \<bar>x\<bar>\<rfloor> = int k"
    using floor_log_eq_powr_iff [of "\<bar>x\<bar>" 2 "int k"] pos lo hi
    unfolding a b by simp
  have "real_of_int (int k - 52) = - real (52 - k)" using k by simp
  then have u: "(2::real) powr (of_int (int k - 52)) = 1 / 2 ^ (52 - k)"
    by (simp only: two_powr_neg)
  show ?thesis by (rule fl_scaled [OF nz e u]) simp
qed

lemma fl_binade_down:
  assumes lo: "1 / 2 ^ k \<le> \<bar>x\<bar>" and hi: "\<bar>x\<bar> < 2 / 2 ^ k"
  shows "fl x = of_int (round_half_even (x * 2 ^ (52 + k))) / 2 ^ (52 + k)"
proof -
  have "(0::real) < 1 / 2 ^ k" by simp
  then have pos: "0 < \<bar>x\<bar>" using lo by (rule less_le_trans)
  then have nz: "x \<noteq> 0" by auto
  have "real_of_int (- int k) = - real k" by simp
  then have a: "(2::real) powr (of_int (- int k)) = 1 / 2 ^ k"
    by (simp only: two_powr_neg)
  have "real_of_int (- int k + 1) = - real k + 1" by simp
  then have "(2::real) powr (of_int (- int k + 1)) = 2 powr (- real k) * 2 powr 1"
    by (simp only: powr_add)
  then have b: "(2::real) powr (of_int (- int k + 1)) = 2 / 2 ^ k"
    by (simp only: two_powr_neg) simp
  have e: "\<lfloor>log 2 \<bar>x\<bar>\<rfloor> = - int k"
    using floor_log_eq_powr_iff [of "\<bar>x\<bar>" 2 "- int k"] pos lo hi
    unfolding a b by simp
  have "real_of_int (- int k - 52) = - real (52 + k)" by simp
  then have u: "(2::real) powr (of_int (- int k - 52)) = 1 / 2 ^ (52 + k)"
    by (simp only: two_powr_neg)
  show ?thesis by (rule fl_scaled [OF nz e u]) simp
qed

lemma fl_mono_up:
  assumes "2 ^ k \<le> x" and "x \<le> y" and "y < 2 * 2 ^ k" and "k \<le> 52"
  shows "fl x \<le> fl y"
proof -
  have pk: "(0::real) < 2 ^ k" by simp
  have x: "2 ^ k \<le> \<bar>x\<bar>" "\<bar>x\<bar> < 2 * 2 ^ k" using assms pk by linarith+
  have y: "2 ^ k \<le> \<bar>y\<bar>" "\<bar>y\<bar> < 2 * 2 ^ k" using assms pk by linarith+
  have "x * 2 ^ (52 - k) \<le> y * 2 ^ (52 - k)" using assms(2) by simp
  then have "round_half_even (x * 2 ^ (52 - k)) \<le> round_half_even (y * 2 ^ (52 - k))"
    by (rule round_half_even_mono)
  then have "real_of_int (round_half_even (x * 2 ^ (52 - k)))
      \<le> real_of_int (round_half_even (y * 2 ^ (52 - k)))" by simp
  then show ?thesis
    unfolding fl_binade_up [OF x assms(4)] fl_binade_up [OF y assms(4)]
    by (rule divide_right_mono) simp
qed

lemma fl_eval_up:
  assumes "2 ^ k \<le> \<bar>x\<bar>" and "\<bar>x\<bar> < 2 * 2 ^ k" and "k \<le> 52"
    and "\<bar>x * 2 ^ (52 - k) - of_int n\<bar> < 1 / 2"
  shows "fl x = of_int n / 2 ^ (52 - k)"
  unfolding fl_binade_up [OF assms(1,2,3)] round_half_even_unique [OF assms(4)] ..

lemma fl_eval_down:
  assumes "1 / 2 ^ k \<le> \<bar>x\<bar>" and "\<bar>x\<bar> < 2 / 2 ^ k"
    and "\<bar>x * 2 ^ (52 + k) - of_int n\<bar> < 1 / 2"
  shows "fl x = of_int n / 2 ^ (52 + k)"
  unfolding fl_binade_down [OF assms(1,2)] round_half_even_unique [OF assms(3)] ..

lemma center_lat_value: "fl (286139 / 10000) = 8054096836101040 / 2 ^ 48"
  using fl_eval_up [of 4 "286139 / 10000" 8054096836101040] by simp

lemma center_lon_value: "fl (772090 / 10000) = 5433100369213260 / 2 ^ 46"
  using fl_eval_up [of 6 "772090 / 10000" 5433100369213260] by simp

lemma radius_value: "fl (1 / 100) = 5764607523034235 / 2 ^ 59"
  using fl_eval_down [of 7 "1 / 100" 5764607523034235] by simp


lemma lat_clamp_north:
  "fl (8054096836101040 / 2 ^ 48 + 5764607523034235 / 2 ^ 59) = 8056911585868147 / 2 ^ 48"
  using fl_eval_up [of 4 "8054096836101040 / 2 ^ 48 + 5764607523034235 / 2 ^ 59" 8056911585868147]
  by simp

lemma lat_clamp_south:
  "fl (8054096836101040 / 2 ^ 48 - 5764607523034235 / 2 ^ 59) = 8051282086333933 / 2 ^ 48"
  using fl_eval_up [of 4 "8054096836101040 / 2 ^ 48 - 5764607523034235 / 2 ^ 59" 8051282086333933]
  by simp

lemma lon_clamp_east:
  "fl (5433100369213260 / 2 ^ 46 + 5764607523034235 / 2 ^ 59) = 5433804056655037 / 2 ^ 46"
  using fl_eval_up [of 6 "5433100369213260 / 2 ^ 46 + 5764607523034235 / 2 ^ 59" 5433804056655037]
  by simp

lemma lon_clamp_west:
  "fl (5433100369213260 / 2 ^ 46 - 5764607523034235 / 2 ^ 59) = 5432396681771483 / 2 ^ 46"
  using fl_eval_up [of 6 "5433100369213260 / 2 ^ 46 - 5764607523034235 / 2 ^ 59" 5432396681771483]
  by simp

lemma lat_edges:
  "fl (286039 / 10000) = 8051282086333933 / 2 ^ 48"
  "fl (286239 / 10000) = 8056911585868146 / 2 ^ 48"
  using fl_eval_up [of 4 "286039 / 10000" 8051282086333933]
    fl_eval_up [of 4 "286239 / 10000" 8056911585868146]
  by simp_all

lemma lon_edges:
  "fl (77199 / 1000) = 5432396681771483 / 2 ^ 46"
  "fl (77219 / 1000) = 5433804056655036 / 2 ^ 46"
  using fl_eval_up [of 6 "77199 / 1000" 5432396681771483]
    fl_eval_up [of 6 "77219 / 1000" 5433804056655036]
  by simp_all

text \<open>Not clamped: the rounded distance is within the radius, so the distance nearly is.\<close>

lemma unclamped_bound:
  assumes "\<bar>fl z\<bar> \<le> r" and "r \<le> 1 / 64"
  shows "\<bar>z\<bar> \<le> r + 1 / 2 ^ 47"
proof -
  have e: "\<bar>fl z - z\<bar> \<le> \<bar>z\<bar> / 2 ^ 53" by (rule fl_error)
  have "\<bar>z\<bar> \<le> r + \<bar>z\<bar> / 2 ^ 53" using e assms(1) by linarith
  moreover from this assms(2) have "\<bar>z\<bar> \<le> 1" by simp
  ultimately show ?thesis by simp
qed

lemma keep_within_bound:
  assumes n: "\<bar>fl (c + r) - c\<bar> \<le> r + 1 / 2 ^ 47"
    and s: "\<bar>fl (c - r) - c\<bar> \<le> r + 1 / 2 ^ 47"
    and r: "r \<le> 1 / 64"
  shows "\<bar>keep_within c r x - c\<bar> \<le> r + 1 / 2 ^ 47"
proof (cases "\<bar>fl (x - c)\<bar> > r")
  case True
  then show ?thesis using n s by (simp add: keep_within_def)
next
  case False
  then have "\<bar>fl (x - c)\<bar> \<le> r" by simp
  from unclamped_bound [OF this r] False show ?thesis by (simp add: keep_within_def)
qed

text \<open>Rounding to six decimals, between two grid points of the same binade.\<close>

lemma py_round6_between:
  assumes lo: "of_int A - 1 / 4 \<le> x * 10 ^ 6" and hi: "x * 10 ^ 6 \<le> of_int B + 1 / 4"
    and bl: "2 ^ k \<le> real_of_int A / 10 ^ 6" and bh: "real_of_int B / 10 ^ 6 < 2 * 2 ^ k"
    and k: "k \<le> 52"
  shows "fl (of_int A / 10 ^ 6) \<le> py_round6 x \<and> py_round6 x \<le> fl (of_int B / 10 ^ 6)"
proof -
  let ?n = "round_half_even (x * 10 ^ 6)"
  have "round_half_even (of_int A - 1 / 4) = A" by (rule round_half_even_unique) simp
  then have a: "A \<le> ?n" using round_half_even_mono [OF lo] by simp
  have "round_half_even (of_int B + 1 / 4) = B" by (rule round_half_even_unique) simp
  then have b: "?n \<le> B" using round_half_even_mono [OF hi] by simp
  have a': "real_of_int A / 10 ^ 6 \<le> real_of_int ?n / 10 ^ 6"
    using a by (simp add: divide_right_mono)
  have b': "real_of_int ?n / 10 ^ 6 \<le> real_of_int B / 10 ^ 6"
    using b by (simp add: divide_right_mono)
  have 1: "fl (of_int A / 10 ^ 6) \<le> fl (of_int ?n / 10 ^ 6)"
    by (rule fl_mono_up [OF bl a' _ k]) (use b' bh in linarith)
  have 2: "fl (of_int ?n / 10 ^ 6) \<le> fl (of_int B / 10 ^ 6)"
    by (rule fl_mono_up [OF _ b' bh k]) (use a' bl in linarith)
  from 1 2 show ?thesis by (simp add: py_round6_def)
qed


lemma center_values:
  "fst SIMULATION_GPS_CENTER = 8054096836101040 / 2 ^ 48"
  "snd SIMULATION_GPS_CENTER = 5433100369213260 / 2 ^ 46"
  "SIMULATION_GPS_RADIUS = 5764607523034235 / 2 ^ 59"
  by (simp_all only: SIMULATION_GPS_CENTER_def SIMULATION_GPS_RADIUS_def fst_conv snd_conv
      center_lat_value center_lon_value radius_value)

lemma lat_kept:
  "\<bar>keep_within (fst SIMULATION_GPS_CENTER) SIMULATION_GPS_RADIUS x - fst SIMULATION_GPS_CENTER\<bar>
     \<le> SIMULATION_GPS_RADIUS + 1 / 2 ^ 47"
  unfolding center_values
  by (rule keep_within_bound) (simp_all only: lat_clamp_north lat_clamp_south, simp_all)

lemma lon_kept:
  "\<bar>keep_within (snd SIMULATION_GPS_CENTER) SIMULATION_GPS_RADIUS x - snd SIMULATION_GPS_CENTER\<bar>
     \<le> SIMULATION_GPS_RADIUS + 1 / 2 ^ 47"
  unfolding center_values
  by (rule keep_within_bound) (simp_all only: lon_clamp_east lon_clamp_west, simp_all)

lemma lat_rounded:
  assumes "\<bar>x - fst SIMULATION_GPS_CENTER\<bar> \<le> SIMULATION_GPS_RADIUS + 1 / 2 ^ 47"
  shows "\<bar>py_round6 x - fst SIMULATION_GPS_CENTER\<bar> \<le> SIMULATION_GPS_RADIUS + 1 / 2 ^ 47"
proof -
  have x: "\<bar>x - 8054096836101040 / 2 ^ 48\<bar> \<le> 5764607523034235 / 2 ^ 59 + 1 / 2 ^ 47"
    using assms unfolding center_values .
  then have "x - 8054096836101040 / 2 ^ 48 \<le> 5764607523034235 / 2 ^ 59 + 1 / 2 ^ 47
      \<and> - (x - 8054096836101040 / 2 ^ 48) \<le> 5764607523034235 / 2 ^ 59 + 1 / 2 ^ 47"
    unfolding abs_le_iff by blast
  then have xl: "2860389999 / 10 ^ 8 \<le> x" and xu: "x \<le> 2862390001 / 10 ^ 8"
    by simp_all
  have "fl (of_int 28603900 / 10 ^ 6) \<le> py_round6 x \<and> py_round6 x \<le> fl (of_int 28623900 / 10 ^ 6)"
  proof (rule py_round6_between [where k = 4])
    show "real_of_int 28603900 - 1 / 4 \<le> x * 10 ^ 6" using xl by simp
    show "x * 10 ^ 6 \<le> real_of_int 28623900 + 1 / 4" using xu by simp
  qed simp_all
  moreover have "fl (of_int 28603900 / 10 ^ 6) = 8051282086333933 / 2 ^ 48"
    using lat_edges(1) by simp
  moreover have "fl (of_int 28623900 / 10 ^ 6) = 8056911585868146 / 2 ^ 48"
    using lat_edges(2) by simp
  ultimately have "8051282086333933 / 2 ^ 48 \<le> py_round6 x
      \<and> py_round6 x \<le> 8056911585868146 / 2 ^ 48"
    by (simp only:)
  then show ?thesis unfolding center_values abs_le_iff by simp
qed

lemma lon_rounded:
  assumes "\<bar>x - snd SIMULATION_GPS_CENTER\<bar> \<le> SIMULATION_GPS_RADIUS + 1 / 2 ^ 47"
  shows "\<bar>py_round6 x - snd SIMULATION_GPS_CENTER\<bar> \<le> SIMULATION_GPS_RADIUS + 1 / 2 ^ 47"
proof -
  have x: "\<bar>x - 5433100369213260 / 2 ^ 46\<bar> \<le> 5764607523034235 / 2 ^ 59 + 1 / 2 ^ 47"
    using assms unfolding center_values .
  then have "x - 5433100369213260 / 2 ^ 46 \<le> 5764607523034235 / 2 ^ 59 + 1 / 2 ^ 47
      \<and> - (x - 5433100369213260 / 2 ^ 46) \<le> 5764607523034235 / 2 ^ 59 + 1 / 2 ^ 47"
    unfolding abs_le_iff by blast
  then have xl: "7719899999 / 10 ^ 8 \<le> x" and xu: "x \<le> 7721900001 / 10 ^ 8"
    by simp_all
  have "fl (of_int 77199000 / 10 ^ 6) \<le> py_round6 x \<and> py_round6 x \<le> fl (of_int 77219000 / 10 ^ 6)"
  proof (rule py_round6_between [where k = 6])
    show "real_of_int 77199000 - 1 / 4 \<le> x * 10 ^ 6" using xl by simp
    show "x * 10 ^ 6 \<le> real_of_int 77219000 + 1 / 4" using xu by simp
  qed simp_all
  moreover have "fl (of_int 77199000 / 10 ^ 6) = 5432396681771483 / 2 ^ 46"
    using lon_edges(1) by simp
  moreover have "fl (of_int 77219000 / 10 ^ 6) = 5433804056655036 / 2 ^ 46"
    using lon_edges(2) by simp
  ultimately have "5432396681771483 / 2 ^ 46 \<le> py_round6 x
      \<and> py_round6 x \<le> 5433804056655036 / 2 ^ 46"
    by (simp only:)
  then show ?thesis unfolding center_values abs_le_iff by simp
qed

lemma simulated_walk_lat:
  "next_lat (simulated_walk lm d s) =
     keep_within (fst SIMULATION_GPS_CENTER) SIMULATION_GPS_RADIUS
       (fl (sim_lat s + fl (d_distance d * m_cos lm (m_radians lm (fl (sim_angle s + d_angle d))))))"
  "latitude (reading (simulated_walk lm d s)) = py_round6 (next_lat (simulated_walk lm d s))"
  by (simp_all add: simulated_walk_def Let_def split_beta)

lemma south_walk_latitude:
  "next_lat (simulated_walk libm_exact south_draw south_state) = 8051282086333933 / 2 ^ 48"
  "latitude (reading (simulated_walk libm_exact south_draw south_state))
     = 8051282086333933 / 2 ^ 48"
proof -
  let ?d = "4611686018427388 / 2 ^ 63 :: real"
  let ?X = "8051310233831604 / 2 ^ 48 :: real"
  let ?l1 = "8051169496343249 / 2 ^ 48 :: real"
  let ?lo = "8051282086333933 / 2 ^ 48 :: real"
  have "fl 180 = 180"
    using fl_eval_up [of 7 180 6333186975989760] by simp
  then have ang: "fl (sim_angle south_state + d_angle south_draw) = 180"
    by (simp add: south_state_def south_draw_def)
  have "fl (5 / 10000) = 4611686018427388 / 2 ^ 63"
    using fl_eval_down [of 11 "5 / 10000" 4611686018427388] by simp
  then have dist: "d_distance south_draw = ?d" by (simp add: south_draw_def)
  have "fl (28604 / 1000) = 8051310233831604 / 2 ^ 48"
    using fl_eval_up [of 4 "28604 / 1000" 8051310233831604] by simp
  then have lat0: "sim_lat south_state = ?X" by (simp add: south_state_def)
  have cosv: "m_cos libm_exact (m_radians libm_exact 180) = - 1"
    by (simp add: libm_exact_def)
  have "fl (- ?d) = - ?d"
    using fl_eval_down [of 11 "- ?d" "- 4611686018427388"] by simp
  then have step: "fl (?d * - 1) = - ?d" by simp
  have "fl (?X - ?d) = ?l1"
    using fl_eval_up [of 4 "?X - ?d" 8051169496343249] by simp
  then have l1: "fl (?X + - ?d) = ?l1" by simp
  have "fl (?l1 - 8054096836101040 / 2 ^ 48) = - (5995191823955968 / 2 ^ 59)"
    using fl_eval_down [of 7 "?l1 - 8054096836101040 / 2 ^ 48" "- 5995191823955968"] by simp
  then have kw: "keep_within (fst SIMULATION_GPS_CENTER) SIMULATION_GPS_RADIUS ?l1 = ?lo"
    unfolding keep_within_def center_values using lat_clamp_south by simp
  have "round_half_even (?lo * 10 ^ 6) = 28603900"
    by (rule round_half_even_unique) simp
  then have rd: "py_round6 ?lo = ?lo"
    unfolding py_round6_def using lat_edges(1) by simp
  show "next_lat (simulated_walk libm_exact south_draw south_state) = ?lo"
    by (simp only: simulated_walk_lat(1) ang dist lat0 cosv step l1 kw)
  then show "latitude (reading (simulated_walk libm_exact south_draw south_state)) = ?lo"
    by (simp only: simulated_walk_lat(2) rd)
qed

lemma largest_step: "fl (SIMULATION_GPS_RADIUS * fl (1 / 10)) = 4611686018427388 / 2 ^ 62"
proof -
  have a: "fl (1 / 10) = 7205759403792794 / 2 ^ 56"
    using fl_eval_down [of 4 "1 / 10" 7205759403792794] by simp
  have "fl (5764607523034235 / 2 ^ 59 * (7205759403792794 / 2 ^ 56)) = 4611686018427388 / 2 ^ 62"
    using fl_eval_down [of 10 "5764607523034235 / 2 ^ 59 * (7205759403792794 / 2 ^ 56)"
        4611686018427388] by simp
  then show ?thesis unfolding center_values a by simp
qed

section \<open>Start and stop\<close>

text \<open>
  Claim C8. \<open>start_system\<close> reports failure exactly when the engine is already running,
  leaves the running flag set in either case and starts a monitoring thread only when
  the engine was not running; \<open>stop_system\<close> reports success from
  every state, a second call returns what the first did, and any positive number of
  consecutive stops ends in the state a single stop produces.
\<close>

theorem start_stop_results:
  "(success (snd (snd (start_system s))) \<longleftrightarrow> \<not> running s)
   \<and> fst (snd (start_system s)) = s\<lparr>running := True\<rparr>
   \<and> fst (start_system s) = (if running s then [] else [ThreadStart])
   \<and> success (snd (snd (stop_system s)))
   \<and> stop_system (fst (snd (stop_system s))) = stop_system s
   \<and> snd (run th (replicate (Suc n) Stop) s) = fst (snd (stop_system s))"
proof -
  have "snd (run th (replicate (Suc n) Stop) s) = s\<lparr>running := False\<rparr>"
    by (induction n arbitrary: s) (simp_all add: stop_system_def)
  then show ?thesis
    by (simp add: start_system_def stop_system_def)
qed

text \<open>
  Claim C10. \<open>stop_system\<close> changes the running flag and nothing else: the status, the
  location, the event log, the client count and the two connectivity flags are what they
  were, and the call performs no effect.
\<close>

theorem stop_system_frame:
  "fst (snd (stop_system s)) = s\<lparr>running := False\<rparr>
   \<and> current_status (fst (snd (stop_system s))) = current_status s
   \<and> current_location (fst (snd (stop_system s))) = current_location s
   \<and> events (fst (snd (stop_system s))) = events s
   \<and> connected_clients (fst (snd (stop_system s))) = connected_clients s
   \<and> firebase_connected (fst (snd (stop_system s))) = firebase_connected s
   \<and> telegram_enabled (fst (snd (stop_system s))) = telegram_enabled s
   \<and> fst (stop_system s) = []"
  by (simp add: stop_system_def)


section \<open>A tick with a detection\<close>

text \<open>
  Claim C2, as the code has it. On a pass of the loop whose voice detection triggers,
  one distress event built from the tick's sample is put at the head of the log (the
  oldest entry leaving when the log was full), the Telegram alert is sent once when the
  Telegram handler is enabled and not at all otherwise, and the fifteen rounds that
  follow only sample, broadcast the location and sleep: no detection, no event and no
  alert. The status broadcast that ends the pass reports \<open>safe\<close>, which is also the
  status the pass leaves in the state.
\<close>

theorem detection_tick_effects:
  "below_prob (voice inp) \<Longrightarrow>
   (let loc = reading (gps_first inp);
        keyword = snd (simulate_voice_detection (voice inp));
        ev = distress_event loc keyword;
        (fx, s1) = monitoring_iteration th inp s
    in events s1 = (if 50 \<le> length (events s) then butlast (ev # events s) else ev # events s)
       \<and> ev_status ev = ''distress''
       \<and> fx = SocketioEmit ''location_update'' (Location loc)
              # StoreEvent ev
              # (if enabled th then [SendAlert loc keyword] else [])
              @ SocketioEmit ''emergency_alert'' (Event ev)
              # concat (map (\<lambda>i. [SocketioEmit ''location_update''
                                      (Location (reading (gps_enhanced inp i))), Sleep 2]) [0..<15])
              @ [SocketioEmit ''status_update'' (Status ''safe'' (status_time inp)), Sleep 2]
       \<and> length (filter is_send_alert fx) = (if enabled th then 1 else 0)
       \<and> current_status s1 = ''safe'')"
proof -
  assume d: "below_prob (voice inp)"
  have ev: "events (snd (monitoring_iteration th inp s)) =
      (if 50 \<le> length (events s)
       then butlast (distress_event (reading (gps_first inp)) (snd (simulate_voice_detection (voice inp))) # events s)
       else distress_event (reading (gps_first inp)) (snd (simulate_voice_detection (voice inp))) # events s)"
    using d by (simp add: monitoring_iteration_events store_capped_def Let_def
        simulate_voice_detection_def)
  have st: "current_status (snd (monitoring_iteration th inp s)) = ''safe''"
    using d by (simp add: monitoring_iteration_fields)
  have cnt: "length (filter is_send_alert (fst (monitoring_iteration th inp s))) =
      (if enabled th then 1 else 0)"
    by (simp add: monitoring_iteration_trace [OF d] no_alert_in_window del: upt.simps)
  have dis: "ev_status (distress_event (reading (gps_first inp)) (snd (simulate_voice_detection (voice inp)))) = ''distress''"
    by (simp add: distress_event_def)
  show ?thesis
    unfolding Let_def split_beta
    using ev st cnt dis monitoring_iteration_trace [OF d, of th s] by blast
qed

text \<open>The theorem at a triggering tick of a running engine with Telegram enabled.\<close>

theorem detection_tick_effects_witness:
  "below_prob (voice alarm_tick)
   \<and> length (filter is_send_alert
        (fst (monitoring_iteration \<lparr>enabled = True\<rparr> alarm_tick (fresh\<lparr>running := True\<rparr>)))) = 1
   \<and> current_status (snd (monitoring_iteration \<lparr>enabled = True\<rparr> alarm_tick (fresh\<lparr>running := True\<rparr>))) = ''safe''"
proof -
  have d: "below_prob (voice alarm_tick)" by (simp add: alarm_tick_def)
  show ?thesis
    using d detection_tick_effects [OF d, of "\<lparr>enabled = True\<rparr>" "fresh\<lparr>running := True\<rparr>"]
    by (simp add: Let_def split_beta)
qed

text \<open>
  Claim C2 as stated asks for one notification on every triggering tick. With the
  Telegram token unset the handler is disabled, and a triggering tick of a fresh,
  started engine records its event without any alert being sent.
\<close>

theorem detection_without_telegram:
  "current_status fresh = ''safe''
   \<and> below_prob (voice alarm_tick)
   \<and> filter is_send_alert
       (fst (run (TelegramHandler_init True [] True) [Start, Tick alarm_tick] fresh)) = []
   \<and> length (events (snd (run (TelegramHandler_init True [] True) [Start, Tick alarm_tick] fresh))) = 1"
proof -
  have d: "below_prob (voice alarm_tick)" by (simp add: alarm_tick_def)
  have r: "running (fresh\<lparr>running := True\<rparr>)" by simp
  have e: "events (fresh\<lparr>running := True\<rparr>) = []" by (simp add: fresh_def SystemState_init_def)
  have t: "filter is_send_alert
      (fst (monitoring_iteration (TelegramHandler_init True [] True) alarm_tick (fresh\<lparr>running := True\<rparr>))) = []"
    by (simp add: monitoring_iteration_trace [OF d] no_alert_in_window TelegramHandler_init_def
        del: upt.simps)
  have l: "length (events (snd (monitoring_iteration (TelegramHandler_init True [] True) alarm_tick (fresh\<lparr>running := True\<rparr>)))) = 1"
    using d e by (simp add: monitoring_iteration_events length_store_capped)
  have s: "current_status fresh = ''safe''" by (simp add: fresh_def SystemState_init_def)
  show ?thesis
    using d t l s by (simp add: start_system_def split_beta Let_def fresh_def SystemState_init_def)
qed


section \<open>Sending an alert\<close>

text \<open>
  Claim C3, as the code has it. \<open>send_alert\<close> returns a boolean, true exactly when the
  handler is enabled and the delivery to at least one non-empty chat id succeeded. An
  enabled handler attempts every non-empty chat id in order, whatever the outcome of the
  other deliveries; with the chat-id variable unset, or with the handler disabled,
  nothing is attempted and the result is \<open>False\<close>, never an error.
\<close>

theorem send_alert_result:
  "send_alert self sm ids loc keyword =
     (if enabled self then filter (\<lambda>c. c \<noteq> []) ids else [],
      enabled self \<and> (\<exists>c \<in> set ids. c \<noteq> [] \<and> sm c))
   \<and> send_alert self sm (split_commas []) loc keyword = ([], False)
   \<and> send_alert \<lparr>enabled = False\<rparr> sm ids loc keyword = ([], False)"
  by (simp add: send_alert_def send_to_chats_eq)

text \<open>Three chat ids of which the second fails: all three are attempted.\<close>

theorem send_alert_result_witness:
  "send_alert \<lparr>enabled = True\<rparr> (\<lambda>c. c \<noteq> ''b'') [''a'', ''b'', ''c''] sample_location (Some ''help'')
     = ([''a'', ''b'', ''c''], True)"
  using send_alert_result [of "\<lparr>enabled = True\<rparr>" "\<lambda>c. c \<noteq> ''b''" "[''a'', ''b'', ''c'']"
      sample_location "Some ''help''"]
  by simp

text \<open>
  Claim C3 as stated has the call return a report of attempted and succeeded deliveries.
  The value returned is the same \<open>True\<close> for three sinks with one failure and for a
  single working sink, two cases whose reports differ.
\<close>

theorem send_alert_returns_bool:
  "snd (send_alert \<lparr>enabled = True\<rparr> (\<lambda>c. c \<noteq> ''b'') [''a'', ''b'', ''c''] sample_location (Some ''help'')) = True
   \<and> snd (send_alert \<lparr>enabled = True\<rparr> (\<lambda>c. True) [''a''] sample_location (Some ''help'')) = True
   \<and> spec_notify (\<lambda>c. c \<noteq> ''b'') [''a'', ''b'', ''c''] = \<lparr>attempted = 3, succeeded = 2\<rparr>
   \<and> spec_notify (\<lambda>c. True) [''a''] = \<lparr>attempted = 1, succeeded = 1\<rparr>"
  by (simp add: send_alert_def spec_notify_def)


section \<open>The size of the event log\<close>

text \<open>
  Claim C1, which the code breaks. Only the distress branch of the loop removes the
  oldest entry after an insertion. Fifty triggering ticks fill the log, and the quiet
  tick that follows inserts a safe event without removing anything, since fifty is a
  multiple of ten; manual triggers insert without removing as well, so the log grows by
  one with each of them.
\<close>

theorem event_log_exceeds_capacity:
  "length (events (snd (run th (Start # replicate 50 (Tick alarm_tick) @ [Tick quiet_tick])
      (SystemState_init fb tg)))) = 51
   \<and> length (events (snd (run th (Start # Tick quiet_tick # replicate n (TriggerEmergency now))
      (SystemState_init fb tg)))) = Suc n"
proof -
  let ?s0 = "SystemState_init fb tg"
  let ?s1 = "?s0\<lparr>running := True\<rparr>"
  have s1: "snd (step th Start ?s0) = ?s1"
    by (simp add: start_system_def SystemState_init_def)
  have r1: "running ?s1" and e1: "events ?s1 = []"
    by (simp_all add: SystemState_init_def)
  let ?s2 = "snd (run th (replicate 50 (Tick alarm_tick)) ?s1)"
  have a: "running ?s2 \<and> length (events ?s2) = 50"
    using alarm_ticks_length [of ?s1 th 50] r1 e1 by simp
  have "length (events (snd (step th (Tick quiet_tick) ?s2))) = 51"
    using a by (simp add: monitoring_iteration_events quiet_tick_def)
  then have first:
    "length (events (snd (run th (Start # replicate 50 (Tick alarm_tick) @ [Tick quiet_tick]) ?s0))) = 51"
    using s1 by (simp add: split_beta Let_def run_append del: step.simps)
  let ?s3 = "snd (step th (Tick quiet_tick) ?s1)"
  have l3: "current_location ?s3 \<noteq> None" and e3: "length (events ?s3) = 1"
    using r1 e1
    by (simp_all add: monitoring_iteration_fields monitoring_iteration_events quiet_tick_def)
  have "length (events (snd (run th (replicate n (TriggerEmergency now)) ?s3))) = Suc n"
    using manual_triggers_length [OF l3, of th n now] e3 by simp
  then have second:
    "length (events (snd (run th (Start # Tick quiet_tick # replicate n (TriggerEmergency now)) ?s0))) = Suc n"
    using s1 by (simp add: split_beta Let_def del: step.simps)
  from first second show ?thesis by blast
qed


section \<open>The manual trigger\<close>

text \<open>
  Claim C4, as the code has it. In every state \<open>trigger_emergency\<close> fails exactly when no
  location is stored; it then answers \<open>No location available\<close> and does nothing. Otherwise
  it succeeds: a distress event with keyword \<open>MANUAL_TRIGGER\<close> at the stored location
  becomes the head of the log, followed by entries of the old log in their order, the
  first forty-nine of them at least, and the event is passed to the event store and
  broadcast as \<open>emergency_alert\<close>. No other field of the state changes, the status
  included, and no Telegram alert is sent. After any run of a fresh process no location
  is stored exactly when the loop has never broadcast a sample, that is when no sample
  was ever taken.
\<close>

theorem trigger_emergency_result:
  "(let (fx, s1, r) = trigger_emergency now s
    in (\<not> success r \<longleftrightarrow> current_location s = None)
       \<and> (\<not> success r \<longrightarrow> message r = ''No location available'' \<and> fx = [] \<and> s1 = s)
       \<and> (success r \<longrightarrow>
            (\<exists>loc. current_location s = Some loc
               \<and> hd (events s1) = manual_event loc now
               \<and> events s1 \<noteq> []
               \<and> prefix (tl (events s1)) (events s)
               \<and> prefix (take 49 (events s)) (tl (events s1))
               \<and> ev_status (manual_event loc now) = ''distress''
               \<and> ev_keyword (manual_event loc now) = Some ''MANUAL_TRIGGER''
               \<and> fx = [StoreEvent (manual_event loc now),
                       SocketioEmit ''emergency_alert'' (Event (manual_event loc now))])
            \<and> s1 = s\<lparr>events := events s1\<rparr>
            \<and> filter is_send_alert fx = []))
   \<and> (current_location (snd (run th acts (SystemState_init fb tg))) = None
        \<longleftrightarrow> filter is_location_broadcast (fst (run th acts (SystemState_init fb tg))) = [])"
proof -
  have reach: "current_location (snd (run th acts (SystemState_init fb tg))) = None
        \<longleftrightarrow> filter is_location_broadcast (fst (run th acts (SystemState_init fb tg))) = []"
    using run_location_sampled [of th acts "SystemState_init fb tg"] init_no_location by simp
  show ?thesis
  proof (cases "current_location s")
    case None
    then show ?thesis using reach
      by (simp add: split_beta Let_def trigger_emergency_def)
  next
    case (Some loc)
    then show ?thesis using reach
      by (simp add: split_beta Let_def trigger_emergency_def manual_event_def take_is_prefix)
  qed
qed

text \<open>
  The theorem before any sample, where the trigger fails, and in the middle of an
  escalation, where it succeeds and leaves the status distress.
\<close>

theorem trigger_emergency_result_witness:
  "\<not> success (snd (snd (trigger_emergency ''t'' fresh)))
   \<and> message (snd (snd (trigger_emergency ''t'' fresh))) = ''No location available''
   \<and> success (snd (snd (trigger_emergency ''t'' escalating)))
   \<and> events (fst (snd (trigger_emergency ''t'' escalating)))
       = [manual_event sample_location ''t'', safe_event sample_location]
   \<and> current_status (fst (snd (trigger_emergency ''t'' escalating))) = ''distress''"
proof -
  have f: "current_location fresh = None" by (simp add: fresh_def SystemState_init_def)
  have l: "current_location escalating = Some sample_location"
    by (simp add: escalating_def sampled_fields)
  have e: "events escalating = [safe_event sample_location]"
    by (simp add: escalating_def sampled_fields)
  have st: "current_status escalating = ''distress''" by (simp add: escalating_def)
  show ?thesis
    using trigger_emergency_result [of "''t''" fresh "\<lparr>enabled = True\<rparr>" "[]" False False]
      trigger_emergency_result [of "''t''" escalating "\<lparr>enabled = True\<rparr>" "[]" False False]
      f l e st
    by (simp add: split_beta Let_def trigger_emergency_def)
qed

text \<open>
  Claim C4 as stated has the manual trigger processed as a real detection, notification
  included. With Telegram enabled, a detection in the state \<open>sampled\<close> sends one alert;
  the manual trigger in the same state sends none and leaves the status \<open>safe\<close>.
\<close>

theorem manual_trigger_sends_no_alert:
  "success (snd (snd (trigger_emergency ''t'' sampled)))
   \<and> filter is_send_alert (fst (trigger_emergency ''t'' sampled)) = []
   \<and> current_status (fst (snd (trigger_emergency ''t'' sampled))) = ''safe''
   \<and> length (filter is_send_alert (fst (monitoring_iteration \<lparr>enabled = True\<rparr> alarm_tick sampled))) = 1"
proof -
  have d: "below_prob (voice alarm_tick)" by (simp add: alarm_tick_def)
  have "length (filter is_send_alert (fst (monitoring_iteration \<lparr>enabled = True\<rparr> alarm_tick sampled))) = 1"
    by (simp add: monitoring_iteration_trace [OF d] no_alert_in_window del: upt.simps)
  then show ?thesis
    by (simp add: trigger_emergency_def sampled_fields Let_def)
qed


section \<open>Querying the log\<close>

text \<open>
  Claim C5, as the code has it. For a limit that is not negative, \<open>get_events\<close> returns
  the first \<open>limit\<close> entries of the log, or the whole log when it is shorter, so at most
  \<open>limit\<close> entries, in the order of the log, which is newest first; without a usable
  \<open>limit\<close> parameter it returns the first twenty.
\<close>

theorem get_events_limit:
  "(0 \<le> l \<longrightarrow> get_events (Some l) s = take (nat l) (events s)
              \<and> int (length (get_events (Some l) s)) \<le> l)
   \<and> get_events None s = take 20 (events s)"
  by (auto simp: get_events_def slice_to_def)

text \<open>The theorem at limit 1, on a log of two events: the newest one is returned.\<close>

theorem get_events_limit_witness:
  "get_events (Some 1) (fst (snd (trigger_emergency ''t'' sampled)))
     = [manual_event sample_location ''t'']"
  using get_events_limit [of 1 "fst (snd (trigger_emergency ''t'' sampled))"]
  by (simp add: trigger_emergency_def sampled_fields Let_def)

text \<open>
  Claim C5 as stated clamps a negative limit to zero. On a log of two events the limit
  \<open>-1\<close> returns one event, where the limit \<open>0\<close> returns none.
\<close>

theorem get_events_negative_limit:
  "length (get_events (Some (- 1)) (fst (snd (trigger_emergency ''t'' sampled)))) = 1
   \<and> get_events (Some 0) (fst (snd (trigger_emergency ''t'' sampled))) = []"
  by (simp add: get_events_def slice_to_def trigger_emergency_def sampled_fields Let_def)


section \<open>The count of connected clients\<close>

text \<open>
  Claim C6, as the code has it. \<open>handle_connect\<close> adds one to the counter and
  \<open>handle_disconnect\<close> subtracts one, from any state, so after a run the counter has
  moved by the number of connects minus the number of disconnects. When every
  disconnect of a run follows a connect that is still counted, the counter is not
  negative in any state the run of a fresh process passes through.
\<close>

theorem connected_clients_count:
  "connected_clients (snd (handle_connect now s)) = connected_clients s + 1
   \<and> connected_clients (snd (handle_disconnect s)) = connected_clients s - 1
   \<and> connected_clients (snd (run th acts s)) =
       connected_clients s + int (length (filter is_connect acts))
         - int (length (filter is_disconnect acts))
   \<and> (leaves_matched 0 acts \<and> prefix p acts \<longrightarrow>
        0 \<le> connected_clients (snd (run th p (SystemState_init fb tg))))"
proof -
  have "0 \<le> connected_clients (snd (run th p (SystemState_init fb tg)))"
    if m: "leaves_matched 0 acts" and p: "prefix p acts"
  proof -
    from p obtain r where "acts = p @ r" by (auto simp: prefix_def)
    with m have "leaves_matched 0 p" using leaves_matched_prefix by blast
    from leaves_matched_count [OF this] show ?thesis
      by (simp add: run_connected_clients SystemState_init_def)
  qed
  then show ?thesis
    by (simp add: run_connected_clients handle_connect_def handle_disconnect_def Let_def)
qed

text \<open>The theorem on one client that connects and leaves.\<close>

theorem connected_clients_count_witness:
  "leaves_matched 0 [Connect ''t'', Disconnect] \<and> prefix [Connect ''t''] [Connect ''t'', Disconnect]
   \<and> 0 \<le> connected_clients (snd (run \<lparr>enabled = False\<rparr> [Connect ''t''] (SystemState_init False False)))
   \<and> connected_clients (snd (run \<lparr>enabled = False\<rparr> [Connect ''t'', Disconnect] fresh)) = 0"
  using connected_clients_count [of "''t''" fresh "\<lparr>enabled = False\<rparr>" "[Connect ''t'', Disconnect]"
      "[Connect ''t'']" False False]
  by (simp add: fresh_def SystemState_init_def)

text \<open>
  Claim C6 as stated has a floor of zero under the decrement. There is none: a
  disconnect handled while the counter is zero leaves it at \<open>-1\<close>.
\<close>

theorem disconnect_below_zero:
  "connected_clients fresh = 0
   \<and> connected_clients (snd (handle_disconnect fresh)) = - 1"
  by (simp add: handle_disconnect_def fresh_def SystemState_init_def)


section \<open>Replay to a joining client\<close>

text \<open>
  Claim C9, which the code breaks in one point. In every state \<open>handle_connect\<close> sends
  the joining client one \<open>status_update\<close> carrying the current status, preceded by one
  \<open>location_update\<close> carrying the stored location when there is one, and nothing else.
  The stored location is not the latest known one, though: the escalation rounds
  broadcast their samples without storing them, where the first sample of a pass is
  stored before it is broadcast. After a detecting pass whose escalation samples have
  moved, the clients have last been sent \<open>moved_location\<close>, and a client that joins is
  sent \<open>sample_location\<close>, the first sample of the pass.
\<close>

theorem join_replays_stored_location:
  "(let fx = fst (handle_connect now s)
    in filter is_status_reply fx = [Emit ''status_update'' (Status (current_status s) now)]
       \<and> filter is_location_reply fx =
           (case current_location s of
              None \<Rightarrow> []
            | Some loc \<Rightarrow> [Emit ''location_update'' (Location loc)])
       \<and> fx = filter is_location_reply fx @ filter is_status_reply fx)
   \<and> (let (tr, s1) = run th [Start, Tick alarm_walk] fresh
       in last_location_broadcast tr = Some moved_location
          \<and> filter is_location_reply (fst (handle_connect now s1))
              = [Emit ''location_update'' (Location sample_location)]
          \<and> sample_location \<noteq> moved_location)"
proof -
  have a: "(let fx = fst (handle_connect now s)
    in filter is_status_reply fx = [Emit ''status_update'' (Status (current_status s) now)]
       \<and> filter is_location_reply fx =
           (case current_location s of
              None \<Rightarrow> []
            | Some loc \<Rightarrow> [Emit ''location_update'' (Location loc)])
       \<and> fx = filter is_location_reply fx @ filter is_status_reply fx)"
    by (cases "current_location s") (simp_all add: handle_connect_def Let_def)
  have d: "below_prob (voice alarm_walk)" by (simp add: alarm_walk_def)
  let ?s0 = "fresh\<lparr>running := True\<rparr>"
  have run: "run th [Start, Tick alarm_walk] fresh
      = (ThreadStart # fst (monitoring_iteration th alarm_walk ?s0),
         snd (monitoring_iteration th alarm_walk ?s0))"
    by (simp add: start_system_def fresh_def SystemState_init_def split_beta Let_def)
  have win: "last_location_broadcast
      (concat (map (\<lambda>i. [SocketioEmit ''location_update'' (Location moved_location), Sleep 2]) is)
        @ rest) = (if is = [] then last_location_broadcast rest
                   else (case last_location_broadcast rest of
                           Some l \<Rightarrow> Some l | None \<Rightarrow> Some moved_location))" for "is" :: "nat list" and rest
    by (induction "is") (auto split: option.splits)
  have tr: "last_location_broadcast (ThreadStart # fst (monitoring_iteration th alarm_walk ?s0))
      = Some moved_location"
    unfolding monitoring_iteration_trace [OF d]
    by (cases "enabled th")
       (simp_all add: win alarm_walk_def moved_gps_def del: upt.simps)
  have loc: "current_location (snd (monitoring_iteration th alarm_walk ?s0)) = Some sample_location"
    by (simp add: monitoring_iteration_fields alarm_walk_def sample_gps_def)
  have rep: "filter is_location_reply
      (fst (handle_connect now (snd (monitoring_iteration th alarm_walk ?s0))))
      = [Emit ''location_update'' (Location sample_location)]"
    using loc by (simp add: handle_connect_def Let_def)
  have ne: "sample_location \<noteq> moved_location"
    by (simp add: sample_location_def moved_location_def)
  have b: "(let (tr, s1) = run th [Start, Tick alarm_walk] fresh
       in last_location_broadcast tr = Some moved_location
          \<and> filter is_location_reply (fst (handle_connect now s1))
              = [Emit ''location_update'' (Location sample_location)]
          \<and> sample_location \<noteq> moved_location)"
    unfolding run Let_def prod.case using tr rep ne by blast
  from a b show ?thesis by (rule conjI)
qed


section \<open>The simulated position and the bounding box\<close>

text \<open>
  Claim C7, as the code has it. Whatever the state and whatever the random draws, the
  position a call of \<open>get_simulated_gps\<close> leaves in the state and the position it returns,
  rounded to six decimals, are within the radius of the configured center up to one
  rounding error of double arithmetic: each coordinate differs from the center's by at
  most the radius plus \<open>2\<^sup>-\<^sup>4\<^sup>7\<close>. Since this holds from every state, it holds after every
  call of any sequence of calls.
\<close>

theorem simulated_position_within_box:
  "(let (loc, s1) = get_simulated_gps (simulated_walk lm d s) s;
        (center_lat, center_lon) = SIMULATION_GPS_CENTER;
        bound = SIMULATION_GPS_RADIUS + 1 / 2 ^ 47
    in \<bar>sim_lat s1 - center_lat\<bar> \<le> bound \<and> \<bar>sim_lon s1 - center_lon\<bar> \<le> bound
       \<and> \<bar>latitude loc - center_lat\<bar> \<le> bound \<and> \<bar>longitude loc - center_lon\<bar> \<le> bound)"
  using lat_kept lon_kept lat_rounded [OF lat_kept] lon_rounded [OF lon_kept]
  by (simp add: get_simulated_gps_def simulated_walk_def Let_def split_beta)


text \<open>
  Claim C7 as stated has no tolerance. The walk \<open>south_state\<close>, \<open>south_draw\<close> starts
  inside the box with draws inside their ranges and crosses the southern edge. The
  clamp assigns the center minus the radius, computed in doubles, and that double lies
  further from the center than the double radius does: the stored and the returned
  latitude both leave the box.
\<close>

theorem box_left_by_rounding:
  "\<bar>d_angle south_draw\<bar> \<le> 30
   \<and> 0 \<le> d_distance south_draw
   \<and> d_distance south_draw \<le> fl (SIMULATION_GPS_RADIUS * fl (1 / 10))
   \<and> \<bar>sim_lat south_state - fst SIMULATION_GPS_CENTER\<bar> \<le> SIMULATION_GPS_RADIUS
   \<and> SIMULATION_GPS_RADIUS
       < \<bar>latitude (fst (get_simulated_gps
              (simulated_walk libm_exact south_draw south_state) south_state))
          - fst SIMULATION_GPS_CENTER\<bar>
   \<and> SIMULATION_GPS_RADIUS
       < \<bar>sim_lat (snd (get_simulated_gps
              (simulated_walk libm_exact south_draw south_state) south_state))
          - fst SIMULATION_GPS_CENTER\<bar>"
proof -
  have "fl (5 / 10000) = 4611686018427388 / 2 ^ 63"
    using fl_eval_down [of 11 "5 / 10000" 4611686018427388] by simp
  then have dist: "d_distance south_draw = 4611686018427388 / 2 ^ 63"
    by (simp add: south_draw_def)
  have "fl (28604 / 1000) = 8051310233831604 / 2 ^ 48"
    using fl_eval_up [of 4 "28604 / 1000" 8051310233831604] by simp
  then have lat0: "sim_lat south_state = 8051310233831604 / 2 ^ 48"
    by (simp add: south_state_def)
  have ang: "d_angle south_draw = 0" by (simp add: south_draw_def)
  have c1: "\<bar>d_angle south_draw\<bar> \<le> 30" by (simp add: ang)
  have c2: "0 \<le> d_distance south_draw" unfolding dist by simp
  have c3: "d_distance south_draw \<le> fl (SIMULATION_GPS_RADIUS * fl (1 / 10))"
    unfolding largest_step dist by simp
  have c4: "\<bar>sim_lat south_state - fst SIMULATION_GPS_CENTER\<bar> \<le> SIMULATION_GPS_RADIUS"
    unfolding lat0 center_values by simp
  have c5: "SIMULATION_GPS_RADIUS
       < \<bar>latitude (fst (get_simulated_gps
              (simulated_walk libm_exact south_draw south_state) south_state))
          - fst SIMULATION_GPS_CENTER\<bar>"
    unfolding get_simulated_gps_def fst_conv south_walk_latitude center_values by simp
  have c6: "SIMULATION_GPS_RADIUS
       < \<bar>sim_lat (snd (get_simulated_gps
              (simulated_walk libm_exact south_draw south_state) south_state))
          - fst SIMULATION_GPS_CENTER\<bar>"
    unfolding get_simulated_gps_def snd_conv
    by (simp add: south_walk_latitude center_values)
  from c1 c2 c3 c4 c5 c6 show ?thesis by blast
qed


end
